theory Spec2Isabelle
  imports Main
begin

section \<open>Tokenizer\<close>

text \<open>
  A source text is a list of characters; the model reads one \<open>char\<close> as one unit of the
  host's string (units above 255 are outside the model). The regular expressions of the rule table are all anchored at the start
  of the remaining text, so each is modelled by the function that returns the text it
  matches there, if any.
\<close>

datatype TokenTypes =
    T_let | T_if | T_else | T_while | T_do | T_for | T_true | T_false | T_null | T_def
  | T_return | T_class | T_new | T_this | T_super | T_extends
  | SEMI | CURLY_END | CURLY_START | PAREN_START | PAREN_END | COMMA | DOT
  | BRACKET_END | BRACKET_START | STRING | NUMBER | IDENTIFIER
  | EQUALITY_OPERATOR | SIMPLE_ASSIGNMENT | COMPLEX_ASSIGNMENT | ADDITITIVE_OPERATOR
  | MULTIPLICATIVE_OPERATOR | RELATIONAL_OPERATOR | LOGICAL_AND | LOGICAL_OR | LOGICAL_NOT
  | EOF

record Token =
  tok_type :: TokenTypes
  tok_value :: string
  tok_start :: int
  tok_end :: int

record Tokenizer =
  tk_string :: string
  cursor :: nat

datatype ParserError = ToyLangParserError string nat nat

definition is_digit :: "char \<Rightarrow> bool" where
  "is_digit c = (48 \<le> (of_char c :: nat) \<and> (of_char c :: nat) \<le> 57)"

definition is_word :: "char \<Rightarrow> bool" where
  "is_word c =
     (is_digit c \<or> (65 \<le> (of_char c :: nat) \<and> (of_char c :: nat) \<le> 90) \<or>
      (97 \<le> (of_char c :: nat) \<and> (of_char c :: nat) \<le> 122) \<or> c = CHR ''_'')"

definition is_space :: "char \<Rightarrow> bool" where
  "is_space c = ((of_char c :: nat) \<in> {9, 10, 11, 12, 13, 32, 160})"

definition is_line_end :: "char \<Rightarrow> bool" where
  "is_line_end c = ((of_char c :: nat) \<in> {10, 13})"

type_synonym regex = "string \<Rightarrow> string option"

text \<open>\<^verbatim>\<open>/^c+/\<close> for a class \<open>c\<close> of characters: the longest run, which must not be empty.\<close>

definition re_many1 :: "(char \<Rightarrow> bool) \<Rightarrow> regex" where
  "re_many1 P s = (if takeWhile P s = [] then None else Some (takeWhile P s))"

text \<open>\<^verbatim>\<open>/^lit/\<close> for a fixed text.\<close>

definition re_lit :: "string \<Rightarrow> regex" where
  "re_lit l s = (if take (length l) s = l then Some l else None)"

text \<open>
  \<^verbatim>\<open>/^\bword\b/\<close>: the first boundary holds at the start of the text before a word
  character; the second holds when no word character follows.
\<close>

definition re_keyword :: "string \<Rightarrow> regex" where
  "re_keyword kw s =
     (if take (length kw) s = kw \<and>
         (case drop (length kw) s of [] \<Rightarrow> True | c # cs \<Rightarrow> \<not> is_word c)
      then Some kw else None)"

text \<open>\<^verbatim>\<open>/^\/\/.*/\<close>: the dot stops at the end of the line.\<close>

definition re_line_comment :: regex where
  "re_line_comment s =
     (if take 2 s = ''//'' then Some (''//'' @ takeWhile (\<lambda>c. \<not> is_line_end c) (drop 2 s))
      else None)"

text \<open>\<^verbatim>\<open>/^\/\*[\s\S]*?\*\//\<close>: up to the first \<^verbatim>\<open>*/\<close> after the opening.\<close>

fun find_close :: "string \<Rightarrow> nat option" where
  "find_close (c # d # cs) =
     (if c = CHR ''*'' \<and> d = CHR ''/'' then Some 0 else map_option Suc (find_close (d # cs)))"
| "find_close cs = None"

definition re_block_comment :: regex where
  "re_block_comment s =
     (if take 2 s = ''/*'' then
        (case find_close (drop 2 s) of
           None \<Rightarrow> None
         | Some n \<Rightarrow> Some (take (n + 4) s))
      else None)"

text \<open>\<^verbatim>\<open>/^[abc]/\<close>: one character of a set.\<close>

definition re_one_of :: "string \<Rightarrow> regex" where
  "re_one_of cls s = (case s of [] \<Rightarrow> None | c # cs \<Rightarrow> if c \<in> set cls then Some [c] else None)"

text \<open>\<^verbatim>\<open>/^[abc]=/\<close>: one character of a set and an equals sign.\<close>

definition re_one_of_eq :: "string \<Rightarrow> regex" where
  "re_one_of_eq cls s =
     (case s of
        c # d # cs \<Rightarrow> if c \<in> set cls \<and> d = CHR ''='' then Some [c, d] else None
      | _ \<Rightarrow> None)"

text \<open>\<^verbatim>\<open>/^[><]=?/\<close>.\<close>

definition re_relational :: regex where
  "re_relational s =
     (case s of
        [] \<Rightarrow> None
      | c # cs \<Rightarrow>
          if c \<in> set ''><'' then
            (case cs of d # ds \<Rightarrow> if d = CHR ''='' then Some [c, d] else Some [c] | [] \<Rightarrow> Some [c])
          else None)"

text \<open>\<^verbatim>\<open>/^q[^q\n]*q/\<close> for a quote character \<open>q\<close>.\<close>

definition re_quoted :: "char \<Rightarrow> regex" where
  "re_quoted q s =
     (case s of
        [] \<Rightarrow> None
      | c # cs \<Rightarrow>
          if c = q then
            (case dropWhile (\<lambda>x. x \<noteq> q \<and> x \<noteq> CHR 0x0A) cs of
               [] \<Rightarrow> None
             | d # ds \<Rightarrow>
                 if d = q then Some (c # takeWhile (\<lambda>x. x \<noteq> q \<and> x \<noteq> CHR 0x0A) cs @ [d])
                 else None)
          else None)"

text \<open>The rule table, in its order; \<open>None\<close> marks a rule whose match is skipped.\<close>

definition spec :: "(regex \<times> TokenTypes option) list" where
  "spec =
     [(re_many1 is_space, None),
      (re_line_comment, None),
      (re_block_comment, None),
      (re_lit '';'', Some SEMI),
      (re_lit ''}'', Some CURLY_END),
      (re_lit ''{'', Some CURLY_START),
      (re_lit ''('', Some PAREN_START),
      (re_lit '')'', Some PAREN_END),
      (re_lit '','', Some COMMA),
      (re_lit ''.'', Some DOT),
      (re_lit '']'', Some BRACKET_END),
      (re_lit ''['', Some BRACKET_START),
      (re_keyword ''Banao'', Some T_let),
      (re_keyword ''Agr'', Some T_if),
      (re_keyword ''Warna'', Some T_else),
      (re_keyword ''JabTak'', Some T_while),
      (re_keyword ''Karo'', Some T_do),
      (re_keyword ''for'', Some T_for),
      (re_keyword ''Sahi'', Some T_true),
      (re_keyword ''Ghalat'', Some T_false),
      (re_keyword ''null'', Some T_null),
      (re_keyword ''def'', Some T_def),
      (re_keyword ''WapisBhejo'', Some T_return),
      (re_keyword ''class'', Some T_class),
      (re_keyword ''new'', Some T_new),
      (re_keyword ''this'', Some T_this),
      (re_keyword ''super'', Some T_super),
      (re_keyword ''extends'', Some T_extends),
      (re_many1 is_digit, Some NUMBER),
      (re_many1 is_word, Some IDENTIFIER),
      (re_one_of_eq ''=!'', Some EQUALITY_OPERATOR),
      (re_lit ''='', Some SIMPLE_ASSIGNMENT),
      (re_one_of_eq ''*/+-'', Some COMPLEX_ASSIGNMENT),
      (re_one_of ''+-'', Some ADDITITIVE_OPERATOR),
      (re_one_of ''*/'', Some MULTIPLICATIVE_OPERATOR),
      (re_relational, Some RELATIONAL_OPERATOR),
      (re_lit ''&&'', Some LOGICAL_AND),
      (re_lit ''||'', Some LOGICAL_OR),
      (re_lit ''!'', Some LOGICAL_NOT),
      (re_quoted (CHR 0x22), Some STRING),
      (re_quoted (CHR 0x27), Some STRING)]"

definition init :: "string \<Rightarrow> Tokenizer" where
  "init s = \<lparr>tk_string = s @ [CHR 0x0A], cursor = 0\<rparr>"

definition hasMoreTokens :: "Tokenizer \<Rightarrow> bool" where
  "hasMoreTokens t = (cursor t < length (tk_string t))"

definition isEOF :: "Tokenizer \<Rightarrow> bool" where
  "isEOF t = (cursor t = length (tk_string t))"

text \<open>\<^verbatim>\<open>_match\<close>: on a match the cursor moves past the matched text.\<close>

definition match_regex :: "regex \<Rightarrow> string \<Rightarrow> Tokenizer \<Rightarrow> string option \<times> Tokenizer" where
  "match_regex regex s t =
     (case regex s of
        None \<Rightarrow> (None, t)
      | Some matched \<Rightarrow> (Some matched, t\<lparr>cursor := cursor t + length matched\<rparr>))"

text \<open>
  The loop of \<^verbatim>\<open>getNextToken\<close> over the rules: it ends without a match, at a skipped
  match (where the method calls itself), or with a token, whose \<^verbatim>\<open>start\<close> is
  \<^verbatim>\<open>this.cursor - tokenValue.length - 1\<close> and whose \<^verbatim>\<open>end\<close> is \<^verbatim>\<open>this.cursor\<close>, both read
  after the cursor has moved.
\<close>

datatype rule_result = NoRule | Skipped Tokenizer | Produced Token Tokenizer

fun try_rules :: "(regex \<times> TokenTypes option) list \<Rightarrow> string \<Rightarrow> Tokenizer \<Rightarrow> rule_result" where
  "try_rules [] s t = NoRule"
| "try_rules ((regex, ty) # rules) s t =
     (case match_regex regex s t of
        (None, t') \<Rightarrow> try_rules rules s t'
      | (Some tokenValue, t') \<Rightarrow>
          (case ty of
             None \<Rightarrow> Skipped t'
           | Some ty' \<Rightarrow>
               Produced
                 \<lparr>tok_type = ty', tok_value = tokenValue,
                  tok_start = int (cursor t') - int (length tokenValue) - 1,
                  tok_end = int (cursor t')\<rparr> t'))"

definition lex_error :: "Tokenizer \<Rightarrow> ParserError" where
  "lex_error t =
     (let s = drop (cursor t) (tk_string t) in
      ToyLangParserError
        (if take 1 s = [CHR 0x22] \<or> take 1 s = [CHR 0x27] then ''Unterminated string literal''
         else ''Invalid token: '' @ [CHR 0x22] @ take 1 s @ [CHR 0x22])
        (cursor t) (cursor t + 1))"

text \<open>
  \<^verbatim>\<open>getNextToken\<close>: nothing at the end of the text, an error when no rule matches, and
  after a skipped match the method again. A skipped match is never empty, so the rest of
  the text gets shorter.
\<close>

lemma try_rules_Skipped:
  "try_rules rules s t = Skipped t' \<Longrightarrow>
     \<exists>regex m. (regex, None) \<in> set rules \<and> regex s = Some m \<and>
       t' = t\<lparr>cursor := cursor t + length m\<rparr>"
proof (induction rules)
  case Nil
  then show ?case by simp
next
  case (Cons r rules)
  obtain regex ty where r: "r = (regex, ty)" by (cases r)
  show ?case
  proof (cases "regex s")
    case None
    with Cons r show ?thesis by (auto simp: match_regex_def)
  next
    case (Some m)
    with Cons.prems r show ?thesis
      by (cases ty) (auto simp: match_regex_def)
  qed
qed

lemma skipped_match_not_empty:
  assumes "(regex, None) \<in> set spec" and "regex s = Some m"
  shows "m \<noteq> []"
proof -
  from assms(1) consider "regex = re_many1 is_space" | "regex = re_line_comment"
    | "regex = re_block_comment"
    by (auto simp: spec_def)
  then show ?thesis
  proof cases
    case 1
    with assms(2) show ?thesis by (auto simp: re_many1_def split: if_splits)
  next
    case 2
    with assms(2) show ?thesis by (auto simp: re_line_comment_def split: if_splits)
  next
    case 3
    with assms(2) show ?thesis
      by (cases s) (auto simp: re_block_comment_def split: if_splits option.splits)
  qed
qed

function getNextToken :: "Tokenizer \<Rightarrow> (ParserError + Token option) \<times> Tokenizer" where
  "getNextToken t =
     (if \<not> hasMoreTokens t \<or> isEOF t then (Inr None, t)
      else
        (case try_rules spec (drop (cursor t) (tk_string t)) t of
           NoRule \<Rightarrow> (Inl (lex_error t), t)
         | Skipped t' \<Rightarrow> getNextToken t'
         | Produced tok t' \<Rightarrow> (Inr (Some tok), t')))"
  by pat_completeness auto
termination
proof (relation "measure (\<lambda>t. length (tk_string t) - cursor t)")
  show "wf (measure (\<lambda>t. length (tk_string t) - cursor t))" by simp
next
  fix t t'
  assume more: "\<not> (\<not> hasMoreTokens t \<or> isEOF t)"
    and skip: "try_rules spec (drop (cursor t) (tk_string t)) t = Skipped t'"
  from try_rules_Skipped [OF skip] obtain regex m where
    rule: "(regex, None) \<in> set spec"
    and m: "regex (drop (cursor t) (tk_string t)) = Some m"
    and t': "t' = t\<lparr>cursor := cursor t + length m\<rparr>"
    by blast
  from rule m have "m \<noteq> []" by (rule skipped_match_not_empty)
  then have pos: "0 < length m" by simp
  from more have "cursor t < length (tk_string t)" by (simp add: hasMoreTokens_def)
  with pos have "length (tk_string t) - (cursor t + length m) < length (tk_string t) - cursor t"
    by arith
  then show "(t', t) \<in> measure (\<lambda>t. length (tk_string t) - cursor t)"
    by (simp add: t')
qed

declare getNextToken.simps [simp del]

section \<open>Abstract syntax\<close>

text \<open>
  The node kinds are those the interpreter's \<^verbatim>\<open>visit\<close> switch and \<^verbatim>\<open>visitLiterals\<close>
  name, with the fields the visitor methods read. A clause the grammar lets the program
  omit (\<^verbatim>\<open>alternate\<close>, the three clauses of \<^verbatim>\<open>for\<close>, a declaration's \<^verbatim>\<open>init\<close>,
  the argument of a return) is \<^verbatim>\<open>null\<close> in the tree and \<open>None\<close> here. The target of an
  assignment is cast to an identifier by the interpreter, so only its name is kept.
  Numbers are host numbers (IEEE doubles); their type is the parameter \<open>'n\<close>.
\<close>

datatype 'n node =
    Program "'n node list"
  | ExpressionStatement "'n node"
  | IfStatement "'n node" "'n node" "'n node option"
  | WhileStatement "'n node" "'n node"
  | ForStatement "'n node option" "'n node option" "'n node option" "'n node"
  | VariableStatement "(string \<times> 'n node option) list"
  | BlockStatement "'n node list"
  | CallExpression "'n node" "'n node list"
  | UnaryExpression string "'n node"
  | BinaryExpression string "'n node" "'n node"
  | LogicalExpression string "'n node" "'n node"
  | AssignmentExpression string string "'n node"
  | FunctionDeclaration string "string list" "'n node list"
  | ReturnStatement "'n node option"
  | NumericLiteral 'n
  | StringLiteral string
  | BooleanLiteral bool
  | NullLiteral
  | Identifier string
  | OtherNode string

section \<open>Runtime values, errors and the interpreter's state\<close>

datatype arity = Finite nat | Infinity

text \<open>
  A callable is an object: a user function made by \<^verbatim>\<open>new ToyLangFunction(node, environment)\<close>
  (the address identifies the object, the last field is the captured environment), or a
  function of the standard library, known by its name.
\<close>

datatype 'n callable =
    ToyLangFunction nat "'n node" nat
  | NativeFunction string arity

datatype 'n val =
    VNum 'n
  | VStr string
  | VBool bool
  | VNull
  | VUndefined
  | VFun "'n callable"

text \<open>
  What the interpreter can throw: its own \<^verbatim>\<open>RuntimeError(message, node)\<close>, the error of
  \<^verbatim>\<open>Environment\<close> for a name that is not bound, the \<^verbatim>\<open>Return\<close> signal, and the host's
  \<^verbatim>\<open>TypeError\<close>, \<^verbatim>\<open>Error\<close> and \<^verbatim>\<open>SyntaxError\<close>. The text of a host \<^verbatim>\<open>TypeError\<close> is the
  engine's; the string kept here only names the operation that failed.
\<close>

datatype 'n error =
    RuntimeError string "'n node"
  | UndefinedVariable string
  | Return "'n val"
  | TypeError string
  | Error string
  | SyntaxError string

record 'n env =
  vars :: "string \<rightharpoonup> 'n val"
  parent :: "nat option"

text \<open>
  Environments are shared mutable objects (a closure keeps the one it was declared in), so
  they live in a store of addresses. \<open>environment\<close> and \<open>globals\<close> are the interpreter's
  two fields of those names; \<open>fresh\<close> is the next unused address.
\<close>

record 'n interp =
  envs :: "nat \<rightharpoonup> 'n env"
  fresh :: nat
  environment :: nat
  globals :: nat

text \<open>
  The result of running a piece of the interpreter: a value, an exception (both with the
  state reached), or \<open>Timeout\<close> when the fuel given to the run is used up.
\<close>

datatype ('a, 'n) outcome =
    Val 'a "'n interp"
  | Exc "'n error" "'n interp"
  | Timeout

definition andThen ::
  "('a, 'n) outcome \<Rightarrow> ('a \<Rightarrow> 'n interp \<Rightarrow> ('b, 'n) outcome) \<Rightarrow> ('b, 'n) outcome" where
  "andThen m f = (case m of Val v s \<Rightarrow> f v s | Exc e s \<Rightarrow> Exc e s | Timeout \<Rightarrow> Timeout)"

section \<open>The host\<close>

text \<open>
  What the interpreter takes from its host and from files that are not part of the
  sources at hand: the arithmetic and the comparisons of host numbers, which numbers are
  falsy (\<open>0\<close>, \<open>-0\<close> and \<open>NaN\<close>), the host's conversions \<open>ToNumber\<close> (of a value that is
  not a number) and \<open>ToPrimitive\<close> (of a callable object), the host's \<^verbatim>\<open>+\<close> on operands
  that are neither two numbers nor two strings, and the standard library: its table of
  names and what each native function returns.
\<close>

record 'n host =
  num_add :: "'n \<Rightarrow> 'n \<Rightarrow> 'n"
  num_sub :: "'n \<Rightarrow> 'n \<Rightarrow> 'n"
  num_mul :: "'n \<Rightarrow> 'n \<Rightarrow> 'n"
  num_div :: "'n \<Rightarrow> 'n \<Rightarrow> 'n"
  num_neg :: "'n \<Rightarrow> 'n"
  num_lt :: "'n \<Rightarrow> 'n \<Rightarrow> bool"
  num_le :: "'n \<Rightarrow> 'n \<Rightarrow> bool"
  num_eq :: "'n \<Rightarrow> 'n \<Rightarrow> bool"
  num_falsy :: "'n \<Rightarrow> bool"
  ToNumber :: "'n val \<Rightarrow> 'n"
  ToPrimitive :: "'n callable \<Rightarrow> 'n val"
  plus_mixed :: "'n val \<Rightarrow> 'n val \<Rightarrow> 'n val"
  stdlib :: "(string \<times> 'n callable) list"
  native_call :: "string \<Rightarrow> 'n val list \<Rightarrow> 'n error + 'n val"

text \<open>The host's truthiness (\<^verbatim>\<open>ToBoolean\<close>), used by every \<^verbatim>\<open>if (v)\<close>, \<^verbatim>\<open>!v\<close>, \<^verbatim>\<open>&&\<close>, \<^verbatim>\<open>||\<close>.\<close>

fun truthy :: "'n host \<Rightarrow> 'n val \<Rightarrow> bool" where
  "truthy H (VNum n) = (\<not> num_falsy H n)"
| "truthy H (VStr s) = (s \<noteq> [])"
| "truthy H (VBool b) = b"
| "truthy H VNull = False"
| "truthy H VUndefined = False"
| "truthy H (VFun f) = True"

fun js_typeof :: "'n val \<Rightarrow> string" where
  "js_typeof (VNum n) = ''number''"
| "js_typeof (VStr s) = ''string''"
| "js_typeof (VBool b) = ''boolean''"
| "js_typeof VNull = ''object''"
| "js_typeof VUndefined = ''undefined''"
| "js_typeof (VFun f) = ''object''"

definition js_to_number :: "'n host \<Rightarrow> 'n val \<Rightarrow> 'n" where
  "js_to_number H v = (case v of VNum a \<Rightarrow> a | _ \<Rightarrow> ToNumber H v)"

text \<open>The host's \<^verbatim>\<open>+\<close>: the sum of two numbers, the concatenation of two strings.\<close>

definition js_plus :: "'n host \<Rightarrow> 'n val \<Rightarrow> 'n val \<Rightarrow> 'n val" where
  "js_plus H l r =
     (case (l, r) of
        (VNum a, VNum b) \<Rightarrow> VNum (num_add H a b)
      | (VStr a, VStr b) \<Rightarrow> VStr (a @ b)
      | _ \<Rightarrow> plus_mixed H l r)"

text \<open>
  The host's loose equality \<^verbatim>\<open>==\<close>. On two primitives: values of one type are compared
  as they are; \<^verbatim>\<open>null\<close> and \<^verbatim>\<open>undefined\<close> equal each other and nothing else; a number, a
  string and a boolean of different types are both converted to numbers.
\<close>

fun prim_loose_eq :: "'n host \<Rightarrow> 'n val \<Rightarrow> 'n val \<Rightarrow> bool" where
  "prim_loose_eq H (VNum a) (VNum b) = num_eq H a b"
| "prim_loose_eq H (VStr a) (VStr b) = (a = b)"
| "prim_loose_eq H (VBool a) (VBool b) = (a = b)"
| "prim_loose_eq H VNull VNull = True"
| "prim_loose_eq H VNull VUndefined = True"
| "prim_loose_eq H VUndefined VNull = True"
| "prim_loose_eq H VUndefined VUndefined = True"
| "prim_loose_eq H VNull y = False"
| "prim_loose_eq H x VNull = False"
| "prim_loose_eq H VUndefined y = False"
| "prim_loose_eq H x VUndefined = False"
| "prim_loose_eq H (VFun f) y = False"
| "prim_loose_eq H x (VFun g) = False"
| "prim_loose_eq H x y = num_eq H (js_to_number H x) (js_to_number H y)"

fun same_object :: "'n callable \<Rightarrow> 'n callable \<Rightarrow> bool" where
  "same_object (ToyLangFunction a d c) (ToyLangFunction b d' c') = (a = b)"
| "same_object (NativeFunction m j) (NativeFunction n k) = (m = n)"
| "same_object f g = False"

definition bool_to_number :: "'n host \<Rightarrow> 'n val \<Rightarrow> 'n val" where
  "bool_to_number H v = (case v of VBool b \<Rightarrow> VNum (ToNumber H v) | _ \<Rightarrow> v)"

text \<open>
  With an object on one side: two objects are equal when they are the same object, an
  object never equals \<^verbatim>\<open>null\<close> or \<^verbatim>\<open>undefined\<close>, and against a number, a string or a
  boolean (first made a number) the object is converted by \<open>ToPrimitive\<close>.
\<close>

definition nullish :: "'n val \<Rightarrow> bool" where
  "nullish v = (case v of VNull \<Rightarrow> True | VUndefined \<Rightarrow> True | _ \<Rightarrow> False)"

definition js_loose_eq :: "'n host \<Rightarrow> 'n val \<Rightarrow> 'n val \<Rightarrow> bool" where
  "js_loose_eq H x y =
     (case (x, y) of
        (VFun f, VFun g) \<Rightarrow> same_object f g
      | (VFun f, _) \<Rightarrow>
          (if nullish y then False
           else prim_loose_eq H (ToPrimitive H f) (bool_to_number H y))
      | (_, VFun g) \<Rightarrow>
          (if nullish x then False
           else prim_loose_eq H (bool_to_number H x) (ToPrimitive H g))
      | _ \<Rightarrow> prim_loose_eq H x y)"

text \<open>Decimal text of a count, as the host's string concatenation writes it.\<close>

function show_nat :: "nat \<Rightarrow> string" where
  "show_nat n =
     (if n < 10 then [''0123456789'' ! n]
      else show_nat (n div 10) @ [''0123456789'' ! (n mod 10)])"
  by pat_completeness auto
termination
  by (relation "measure id") auto

declare show_nat.simps [simp del]

fun show_arity :: "arity \<Rightarrow> string" where
  "show_arity (Finite n) = show_nat n"
| "show_arity Infinity = ''Infinity''"

section \<open>Environment\<close>

text \<open>
  Modelled from the spec: the class \<^verbatim>\<open>Environment\<close> (its file is not among the sources).
  An environment maps names to values and refers to the enclosing environment, or to none
  for the global scope. \<^verbatim>\<open>add\<close> (the spec's \<^verbatim>\<open>define\<close>) inserts into the scope it is
  called on, and a name already there is overwritten. \<^verbatim>\<open>get\<close> walks from that scope
  outward and fails with \<open>UndefinedVariable\<close> when the chain is exhausted. \<^verbatim>\<open>assign\<close>
  walks the same chain, changes the first scope that has the name, and fails with
  \<open>UndefinedVariable\<close> when no scope has it. An enclosing environment exists before
  the environment that refers to it, so its address is the smaller one; the walk stops at
  a reference that does not go down.
\<close>

text \<open>Modelled from the spec: \<^verbatim>\<open>new Environment(parent)\<close>.\<close>

definition new_Environment :: "nat option \<Rightarrow> 'n interp \<Rightarrow> nat \<times> 'n interp" where
  "new_Environment p s =
     (fresh s,
      s\<lparr>envs := (envs s)(fresh s \<mapsto> \<lparr>vars = Map.empty, parent = p\<rparr>),
        fresh := Suc (fresh s)\<rparr>)"

text \<open>Modelled from the spec: \<^verbatim>\<open>Environment.add\<close>, on the environment at an address.\<close>

definition env_add :: "nat \<Rightarrow> string \<Rightarrow> 'n val \<Rightarrow> 'n interp \<Rightarrow> 'n interp" where
  "env_add a name v s =
     (case envs s a of
        None \<Rightarrow> s
      | Some e \<Rightarrow> s\<lparr>envs := (envs s)(a \<mapsto> e\<lparr>vars := (vars e)(name \<mapsto> v)\<rparr>)\<rparr>)"

text \<open>
  Modelled from the spec: the walk of \<^verbatim>\<open>Environment.get\<close> and \<^verbatim>\<open>Environment.assign\<close>
  along the chain, to the first scope that has the name.
\<close>

fun find_scope :: "(nat \<rightharpoonup> 'n env) \<Rightarrow> nat \<Rightarrow> string \<Rightarrow> nat option" where
  "find_scope es a name =
     (case es a of
        None \<Rightarrow> None
      | Some e \<Rightarrow>
          (case vars e name of
             Some v \<Rightarrow> Some a
           | None \<Rightarrow>
               (case parent e of
                  None \<Rightarrow> None
                | Some p \<Rightarrow> if p < a then find_scope es p name else None)))"

declare find_scope.simps [simp del]

text \<open>Modelled from the spec: \<^verbatim>\<open>Environment.get\<close>.\<close>

definition env_get :: "'n interp \<Rightarrow> nat \<Rightarrow> string \<Rightarrow> 'n error + 'n val" where
  "env_get s a name =
     (case find_scope (envs s) a name of
        None \<Rightarrow> Inl (UndefinedVariable name)
      | Some b \<Rightarrow>
          (case envs s b of
             None \<Rightarrow> Inl (UndefinedVariable name)
           | Some e \<Rightarrow>
               (case vars e name of
                  None \<Rightarrow> Inl (UndefinedVariable name)
                | Some v \<Rightarrow> Inr v)))"

text \<open>Modelled from the spec: \<^verbatim>\<open>Environment.assign\<close>.\<close>

definition env_assign :: "nat \<Rightarrow> string \<Rightarrow> 'n val \<Rightarrow> 'n interp \<Rightarrow> 'n error + 'n interp" where
  "env_assign a name v s =
     (case find_scope (envs s) a name of
        None \<Rightarrow> Inl (UndefinedVariable name)
      | Some b \<Rightarrow> Inr (env_add b name v s))"

section \<open>Callables\<close>

text \<open>
  Modelled from the spec: the classes of \<^verbatim>\<open>CallableFunction\<close> (their file is not among
  the sources). The arity of a user function is the number of its declared parameters; a
  native function declares a finite arity or an unbounded one. Calling a user function
  creates a new environment chained to the captured one, binds the parameters by
  position and evaluates the body statements in order with \<^verbatim>\<open>executeBlock\<close>; the
  \<^verbatim>\<open>Return\<close> signal is caught at this boundary and its value is the result of the call
  (\<^verbatim>\<open>null\<close> when the body ends without one).
\<close>

text \<open>Modelled from the spec: \<^verbatim>\<open>arity()\<close> of a callable.\<close>

definition arity_of :: "'n callable \<Rightarrow> arity" where
  "arity_of c =
     (case c of
        ToyLangFunction a decl closure \<Rightarrow>
          (case decl of FunctionDeclaration name params body \<Rightarrow> Finite (length params)
           | _ \<Rightarrow> Finite 0)
      | NativeFunction name ar \<Rightarrow> ar)"

text \<open>
  Modelled from the spec: the binding of the parameters to the arguments by position, in
  the environment of the call.
\<close>

fun bind_params :: "nat \<Rightarrow> string list \<Rightarrow> 'n val list \<Rightarrow> 'n interp \<Rightarrow> 'n interp" where
  "bind_params e [] vs s = s"
| "bind_params e (p # ps) [] s = bind_params e ps [] (env_add e p VUndefined s)"
| "bind_params e (p # ps) (v # vs) s = bind_params e ps vs (env_add e p v s)"

section \<open>The interpreter\<close>

type_synonym 'n visitor = "'n node option \<Rightarrow> 'n interp \<Rightarrow> ('n val, 'n) outcome"

text \<open>
  Each \<^verbatim>\<open>visit...\<close> method is a definition of its own; where the method calls
  \<^verbatim>\<open>this.visit\<close>, the definition calls the visitor \<open>vis\<close> it is given. \<open>visit\<close> below
  ties the knot.
\<close>

definition checkNumberOperands :: "'n node \<Rightarrow> 'n val \<Rightarrow> 'n val \<Rightarrow> 'n error + 'n \<times> 'n" where
  "checkNumberOperands node left right =
     (case (left, right) of
        (VNum a, VNum b) \<Rightarrow> Inr (a, b)
      | _ \<Rightarrow> Inl (RuntimeError ''Operands must be numbers.'' node))"

definition checkNumberOperand :: "'n node \<Rightarrow> 'n val \<Rightarrow> 'n error + 'n" where
  "checkNumberOperand node operand =
     (case operand of
        VNum a \<Rightarrow> Inr a
      | _ \<Rightarrow> Inl (RuntimeError ''Operand must be number.'' node))"

definition visitIdentifier :: "string \<Rightarrow> 'n interp \<Rightarrow> ('n val, 'n) outcome" where
  "visitIdentifier name s =
     (case env_get s (environment s) name of Inl e \<Rightarrow> Exc e s | Inr v \<Rightarrow> Val v s)"

definition visitExpression :: "'n visitor \<Rightarrow> 'n node \<Rightarrow> 'n interp \<Rightarrow> ('n val, 'n) outcome" where
  "visitExpression vis expression s = vis (Some expression) s"

definition assign_and_return ::
  "string \<Rightarrow> 'n val \<Rightarrow> 'n val \<Rightarrow> 'n interp \<Rightarrow> ('n val, 'n) outcome" where
  "assign_and_return name stored lhs s =
     (case env_assign (environment s) name stored s of
        Inl e \<Rightarrow> Exc e s
      | Inr s' \<Rightarrow> Val lhs s')"

text \<open>
  \<^verbatim>\<open>visitAssignmentExpression\<close>: the right side is evaluated, then \<open>lhs\<close> is read from
  the environment, then the operator decides what is stored; the method returns \<open>lhs\<close>,
  which the compound operators have updated and \<^verbatim>\<open>=\<close> has not.
\<close>

definition visitAssignmentExpression ::
  "'n host \<Rightarrow> 'n visitor \<Rightarrow> string \<Rightarrow> string \<Rightarrow> 'n node \<Rightarrow> 'n interp \<Rightarrow> ('n val, 'n) outcome" where
  "visitAssignmentExpression H vis operator name right s =
     andThen (vis (Some right) s) (\<lambda>v s1.
       case env_get s1 (environment s1) name of
         Inl e \<Rightarrow> Exc e s1
       | Inr lhs \<Rightarrow>
           if operator = ''='' then assign_and_return name v lhs s1
           else if operator = ''+='' then
             assign_and_return name (js_plus H lhs v) (js_plus H lhs v) s1
           else if operator = ''-='' then
             (case v of
                VNum b \<Rightarrow>
                  assign_and_return name (VNum (num_sub H (js_to_number H lhs) b))
                    (VNum (num_sub H (js_to_number H lhs) b)) s1
              | _ \<Rightarrow>
                  Exc (RuntimeError ''Operand must be a number''
                    (AssignmentExpression operator name right)) s1)
           else if operator = ''/='' then
             (case v of
                VNum b \<Rightarrow>
                  assign_and_return name (VNum (num_div H (js_to_number H lhs) b))
                    (VNum (num_div H (js_to_number H lhs) b)) s1
              | _ \<Rightarrow>
                  Exc (RuntimeError ''Operand must be a number''
                    (AssignmentExpression operator name right)) s1)
           else if operator = ''*='' then
             (case v of
                VNum b \<Rightarrow>
                  assign_and_return name (VNum (num_mul H (js_to_number H lhs) b))
                    (VNum (num_mul H (js_to_number H lhs) b)) s1
              | _ \<Rightarrow>
                  Exc (RuntimeError ''Operand must be a number''
                    (AssignmentExpression operator name right)) s1)
           else Val lhs s1)"

definition visitReturnStatement ::
  "'n visitor \<Rightarrow> 'n node option \<Rightarrow> 'n interp \<Rightarrow> ('n val, 'n) outcome" where
  "visitReturnStatement vis argument s =
     andThen (case argument of None \<Rightarrow> Val VNull s | Some a \<Rightarrow> vis (Some a) s)
       (\<lambda>v s1. Exc (Return v) s1)"

definition visitFunctionDeclaration ::
  "string \<Rightarrow> string list \<Rightarrow> 'n node list \<Rightarrow> 'n interp \<Rightarrow> ('n val, 'n) outcome" where
  "visitFunctionDeclaration name params body s =
     Val VNull
       (env_add (environment s) name
          (VFun (ToyLangFunction (fresh s) (FunctionDeclaration name params body) (environment s)))
          (s\<lparr>fresh := Suc (fresh s)\<rparr>))"

text \<open>
  \<^verbatim>\<open>executeBlock\<close>: the statements run in the environment given, and the \<^verbatim>\<open>finally\<close>
  puts the previous environment back, also when a statement throws.
\<close>

fun run_statements :: "'n visitor \<Rightarrow> 'n node list \<Rightarrow> 'n interp \<Rightarrow> ('n val, 'n) outcome" where
  "run_statements vis [] s = Val VUndefined s"
| "run_statements vis (statement # statements) s =
     andThen (vis (Some statement) s) (\<lambda>v s1. run_statements vis statements s1)"

definition executeBlock ::
  "'n visitor \<Rightarrow> 'n node list \<Rightarrow> nat \<Rightarrow> 'n interp \<Rightarrow> ('n val, 'n) outcome" where
  "executeBlock vis statements e s =
     (case run_statements vis statements (s\<lparr>environment := e\<rparr>) of
        Val v s1 \<Rightarrow> Val VUndefined (s1\<lparr>environment := environment s\<rparr>)
      | Exc err s1 \<Rightarrow> Exc err (s1\<lparr>environment := environment s\<rparr>)
      | Timeout \<Rightarrow> Timeout)"

text \<open>
  Modelled from the spec: \<^verbatim>\<open>call(interpreter, args)\<close> of a callable. What a native
  function returns is the host's.
\<close>

definition call_function ::
  "'n host \<Rightarrow> 'n visitor \<Rightarrow> 'n callable \<Rightarrow> 'n val list \<Rightarrow> 'n interp \<Rightarrow> ('n val, 'n) outcome" where
  "call_function H vis c args s =
     (case c of
        ToyLangFunction a decl closure \<Rightarrow>
          (case decl of
             FunctionDeclaration name params body \<Rightarrow>
               (case new_Environment (Some closure) s of
                  (e, s1) \<Rightarrow>
                    (case executeBlock vis body e (bind_params e params args s1) of
                       Val v s2 \<Rightarrow> Val VNull s2
                     | Exc (Return v) s2 \<Rightarrow> Val v s2
                     | Exc err s2 \<Rightarrow> Exc err s2
                     | Timeout \<Rightarrow> Timeout))
           | _ \<Rightarrow> Exc (TypeError ''call of a function without declaration'') s)
      | NativeFunction name ar \<Rightarrow>
          (case native_call H name args of Inl err \<Rightarrow> Exc err s | Inr v \<Rightarrow> Val v s))"

fun visit_arguments ::
  "'n visitor \<Rightarrow> 'n node list \<Rightarrow> 'n interp \<Rightarrow> ('n val list, 'n) outcome" where
  "visit_arguments vis [] s = Val [] s"
| "visit_arguments vis (argument # arguments) s =
     andThen (vis (Some argument) s) (\<lambda>v s1.
       andThen (visit_arguments vis arguments s1) (\<lambda>vs s2. Val (v # vs) s2))"

text \<open>
  The guard of \<^verbatim>\<open>visitCallExpression\<close> is
  \<^verbatim>\<open>(!(callee as any).prototype as unknown) instanceof CallableFunction\<close>: the property
  \<^verbatim>\<open>prototype\<close> is read from the callee (the host throws a \<^verbatim>\<open>TypeError\<close> on \<^verbatim>\<open>null\<close> and
  \<^verbatim>\<open>undefined\<close>; a number, a string, a boolean and an instance of a class have none, so
  the read gives \<^verbatim>\<open>undefined\<close>), the result is negated, and \<^verbatim>\<open>instanceof\<close> is applied to
  the boolean. An object is an instance; a primitive never is.
\<close>

definition read_prototype :: "'n val \<Rightarrow> 'n error + 'n val" where
  "read_prototype callee =
     (if nullish callee then Inl (TypeError ''cannot read property prototype'') else Inr VUndefined)"

definition instanceof_CallableFunction :: "'n val \<Rightarrow> bool" where
  "instanceof_CallableFunction v = (case v of VFun f \<Rightarrow> True | _ \<Rightarrow> False)"

definition visitCallExpression ::
  "'n host \<Rightarrow> 'n visitor \<Rightarrow> 'n node \<Rightarrow> 'n node list \<Rightarrow> 'n interp \<Rightarrow> ('n val, 'n) outcome" where
  "visitCallExpression H vis callee_node arguments s =
     andThen (vis (Some callee_node) s) (\<lambda>callee s1.
       case read_prototype callee of
         Inl e \<Rightarrow> Exc e s1
       | Inr proto \<Rightarrow>
           if instanceof_CallableFunction (VBool (\<not> truthy H proto) :: 'n val) then
             Exc (RuntimeError ''Can only call functions and classes''
               (CallExpression callee_node arguments)) s1
           else
             andThen (visit_arguments vis arguments s1) (\<lambda>args s2.
               case callee of
                 VFun c \<Rightarrow>
                   if Finite (length args) \<noteq> arity_of c \<and> arity_of c \<noteq> Infinity then
                     Exc (RuntimeError
                       (''Expected '' @ show_arity (arity_of c) @ '' arguments but got '' @
                          show_nat (length args) @ ''.'')
                       (CallExpression callee_node arguments)) s2
                   else call_function H vis c args s2
               | _ \<Rightarrow> Exc (TypeError ''callee.arity is not a function'') s2))"

text \<open>
  \<^verbatim>\<open>visitVariableStatement\<close>: the body of the loop over the declarations ends in
  \<^verbatim>\<open>return null\<close>, so the method returns after the first declaration.
\<close>

definition visitVariableStatement ::
  "'n visitor \<Rightarrow> (string \<times> 'n node option) list \<Rightarrow> 'n interp \<Rightarrow> ('n val, 'n) outcome" where
  "visitVariableStatement vis declarations s =
     (case declarations of
        [] \<Rightarrow> Val VNull s
      | (name, initializer) # rest \<Rightarrow>
          andThen (case initializer of None \<Rightarrow> Val VNull s | Some i \<Rightarrow> vis (Some i) s)
            (\<lambda>v s1. Val VNull (env_add (environment s1) name v s1)))"

definition visitBlockStatement ::
  "'n visitor \<Rightarrow> 'n node list \<Rightarrow> 'n interp \<Rightarrow> ('n val, 'n) outcome" where
  "visitBlockStatement vis body s =
     (case new_Environment (Some (environment s)) s of
        (e, s1) \<Rightarrow> andThen (executeBlock vis body e s1) (\<lambda>v s2. Val VNull s2))"

definition visitIfStatement ::
  "'n host \<Rightarrow> 'n visitor \<Rightarrow> 'n node \<Rightarrow> 'n node \<Rightarrow> 'n node option \<Rightarrow> 'n interp \<Rightarrow>
     ('n val, 'n) outcome" where
  "visitIfStatement H vis test consequent alternate s =
     andThen (vis (Some test) s) (\<lambda>t s1.
       if truthy H t then andThen (vis (Some consequent) s1) (\<lambda>v s2. Val VNull s2)
       else
         (case alternate of
            Some a \<Rightarrow> andThen (vis (Some a) s1) (\<lambda>v s2. Val VNull s2)
          | None \<Rightarrow> Val VNull s1))"

text \<open>Loops take fuel: one unit for each evaluation of the test.\<close>

primrec while_loop ::
  "'n host \<Rightarrow> 'n visitor \<Rightarrow> nat \<Rightarrow> 'n node \<Rightarrow> 'n node \<Rightarrow> 'n interp \<Rightarrow> ('n val, 'n) outcome" where
  "while_loop H vis 0 test body s = Timeout"
| "while_loop H vis (Suc n) test body s =
     andThen (vis (Some test) s) (\<lambda>t s1.
       if truthy H t then
         andThen (vis (Some body) s1) (\<lambda>v s2. while_loop H vis n test body s2)
       else Val VUndefined s1)"

definition visitWhileStatement ::
  "'n host \<Rightarrow> 'n visitor \<Rightarrow> nat \<Rightarrow> 'n node \<Rightarrow> 'n node \<Rightarrow> 'n interp \<Rightarrow> ('n val, 'n) outcome" where
  "visitWhileStatement H vis n test body s =
     andThen (while_loop H vis n test body s) (\<lambda>v s1. Val VNull s1)"

text \<open>\<^verbatim>\<open>for (;;) { this.visit(node.body); }\<close>: no way out but an exception.\<close>

primrec forever :: "'n visitor \<Rightarrow> nat \<Rightarrow> 'n node \<Rightarrow> 'n interp \<Rightarrow> ('n val, 'n) outcome" where
  "forever vis 0 body s = Timeout"
| "forever vis (Suc n) body s =
     andThen (vis (Some body) s) (\<lambda>v s1. forever vis n body s1)"

text \<open>
  \<^verbatim>\<open>for (this.visit(node.init); this.visit(node.test); this.visit(node.update))\<close>, after the
  initialisation: the test, the body, the update, and again.
\<close>

primrec for_loop ::
  "'n host \<Rightarrow> 'n visitor \<Rightarrow> nat \<Rightarrow> 'n node option \<Rightarrow> 'n node option \<Rightarrow> 'n node \<Rightarrow> 'n interp \<Rightarrow>
     ('n val, 'n) outcome" where
  "for_loop H vis 0 test update body s = Timeout"
| "for_loop H vis (Suc n) test update body s =
     andThen (vis test s) (\<lambda>t s1.
       if truthy H t then
         andThen (vis (Some body) s1) (\<lambda>v s2.
           andThen (vis update s2) (\<lambda>u s3. for_loop H vis n test update body s3))
       else Val VUndefined s1)"

definition visitForStatement ::
  "'n host \<Rightarrow> 'n visitor \<Rightarrow> nat \<Rightarrow> 'n node option \<Rightarrow> 'n node option \<Rightarrow> 'n node option \<Rightarrow>
     'n node \<Rightarrow> 'n interp \<Rightarrow> ('n val, 'n) outcome" where
  "visitForStatement H vis n initial test update body s =
     (if initial = None \<and> test = None \<and> update = None then forever vis n body s
      else
        andThen (vis initial s) (\<lambda>i s1.
          andThen (for_loop H vis n test update body s1) (\<lambda>v s2. Val VNull s2)))"

definition mismatched_type :: "'n val \<Rightarrow> 'n val \<Rightarrow> string" where
  "mismatched_type left right =
     ''Runtime: Mismatched type, cannot '' @ [CHR 0x22] @ js_typeof left @ [CHR 0x22] @
     '' + '' @ [CHR 0x22] @ js_typeof right @ [CHR 0x22]"

definition binary_operation ::
  "'n host \<Rightarrow> 'n node \<Rightarrow> string \<Rightarrow> 'n val \<Rightarrow> 'n val \<Rightarrow> 'n error + 'n val" where
  "binary_operation H node op left right =
     (if op = ''=='' then Inr (VBool (js_loose_eq H left right))
      else if op = ''!='' then Inr (VBool (\<not> js_loose_eq H left right))
      else if op = ''+'' then
        (case (left, right) of
           (VNum a, VNum b) \<Rightarrow> Inr (VNum (num_add H a b))
         | (VStr a, VStr b) \<Rightarrow> Inr (VStr (a @ b))
         | _ \<Rightarrow> Inl (RuntimeError (mismatched_type left right) node))
      else if op = ''-'' then
        map_sum id (\<lambda>(a, b). VNum (num_sub H a b)) (checkNumberOperands node left right)
      else if op = ''/'' then
        map_sum id (\<lambda>(a, b). VNum (num_div H a b)) (checkNumberOperands node left right)
      else if op = ''*'' then
        map_sum id (\<lambda>(a, b). VNum (num_mul H a b)) (checkNumberOperands node left right)
      else if op = ''>'' then
        map_sum id (\<lambda>(a, b). VBool (num_lt H b a)) (checkNumberOperands node left right)
      else if op = ''<'' then
        map_sum id (\<lambda>(a, b). VBool (num_lt H a b)) (checkNumberOperands node left right)
      else if op = ''>='' then
        map_sum id (\<lambda>(a, b). VBool (num_le H b a)) (checkNumberOperands node left right)
      else if op = ''<='' then
        map_sum id (\<lambda>(a, b). VBool (num_le H a b)) (checkNumberOperands node left right)
      else Inl (Error ''Runtime: Unknown Binary operation''))"

definition visitBinaryExpression ::
  "'n host \<Rightarrow> 'n visitor \<Rightarrow> string \<Rightarrow> 'n node \<Rightarrow> 'n node \<Rightarrow> 'n interp \<Rightarrow> ('n val, 'n) outcome" where
  "visitBinaryExpression H vis op left_node right_node s =
     andThen (vis (Some left_node) s) (\<lambda>left s1.
       andThen (vis (Some right_node) s1) (\<lambda>right s2.
         case binary_operation H (BinaryExpression op left_node right_node) op left right of
           Inl e \<Rightarrow> Exc e s2
         | Inr v \<Rightarrow> Val v s2))"

text \<open>
  \<^verbatim>\<open>visitLogicalExpression\<close>: both operands are visited before the operator is looked
  at; the host's \<^verbatim>\<open>&&\<close> and \<^verbatim>\<open>||\<close> then choose between the two values.
\<close>

definition visitLogicalExpression ::
  "'n host \<Rightarrow> 'n visitor \<Rightarrow> string \<Rightarrow> 'n node \<Rightarrow> 'n node \<Rightarrow> 'n interp \<Rightarrow> ('n val, 'n) outcome" where
  "visitLogicalExpression H vis op left_node right_node s =
     andThen (vis (Some left_node) s) (\<lambda>left s1.
       andThen (vis (Some right_node) s1) (\<lambda>right s2.
         if op = ''&&'' then Val (if truthy H left then right else left) s2
         else if op = ''||'' then Val (if truthy H left then left else right) s2
         else Exc (Error ''Runtime: Unknown Logical operation'') s2))"

definition visitLiterals :: "'n node \<Rightarrow> 'n interp \<Rightarrow> ('n val, 'n) outcome" where
  "visitLiterals node s =
     (case node of
        NumericLiteral v \<Rightarrow> Val (VNum v) s
      | StringLiteral v \<Rightarrow> Val (VStr v) s
      | BooleanLiteral v \<Rightarrow> Val (VBool v) s
      | NullLiteral \<Rightarrow> Val VNull s
      | _ \<Rightarrow> Exc (SyntaxError ''Runtime: Unexpected literal'') s)"

definition visitUnaryExpression ::
  "'n host \<Rightarrow> 'n visitor \<Rightarrow> string \<Rightarrow> 'n node \<Rightarrow> 'n interp \<Rightarrow> ('n val, 'n) outcome" where
  "visitUnaryExpression H vis operator argument s =
     andThen (vis (Some argument) s) (\<lambda>right s1.
       if operator = ''-'' then
         (case checkNumberOperand (UnaryExpression operator argument) right of
            Inl e \<Rightarrow> Exc e s1
          | Inr a \<Rightarrow> Val (VNum (num_neg H a)) s1)
       else if operator = ''+'' then Val right s1
       else if operator = ''!'' then Val (VBool (\<not> truthy H right)) s1
       else Val VNull s1)"

definition visitProgram :: "'n visitor \<Rightarrow> 'n node list \<Rightarrow> 'n interp \<Rightarrow> ('n val, 'n) outcome" where
  "visitProgram vis body s = andThen (run_statements vis body s) (\<lambda>v s1. Val VNull s1)"

text \<open>
  \<^verbatim>\<open>visit\<close>: \<^verbatim>\<open>undefined\<close> for no node, then the switch on the node's type. The switch has
  no case for \<^verbatim>\<open>BooleanLiteral\<close> and \<^verbatim>\<open>NullLiteral\<close>, so they take the default and give
  \<^verbatim>\<open>null\<close>, as every other type does. The fuel bounds the depth of the recursion and the
  number of iterations of each loop.
\<close>

primrec visit :: "'n host \<Rightarrow> nat \<Rightarrow> 'n node option \<Rightarrow> 'n interp \<Rightarrow> ('n val, 'n) outcome" where
  "visit H 0 node s = Timeout"
| "visit H (Suc k) node s =
     (case node of
        None \<Rightarrow> Val VUndefined s
      | Some n \<Rightarrow>
          (case n of
             ExpressionStatement expression \<Rightarrow> visitExpression (visit H k) expression s
           | IfStatement test consequent alternate \<Rightarrow>
               visitIfStatement H (visit H k) test consequent alternate s
           | WhileStatement test body \<Rightarrow> visitWhileStatement H (visit H k) k test body s
           | ForStatement initial test update body \<Rightarrow>
               visitForStatement H (visit H k) k initial test update body s
           | VariableStatement declarations \<Rightarrow>
               visitVariableStatement (visit H k) declarations s
           | BlockStatement body \<Rightarrow> visitBlockStatement (visit H k) body s
           | CallExpression callee arguments \<Rightarrow>
               visitCallExpression H (visit H k) callee arguments s
           | UnaryExpression operator argument \<Rightarrow>
               visitUnaryExpression H (visit H k) operator argument s
           | BinaryExpression operator left right \<Rightarrow>
               visitBinaryExpression H (visit H k) operator left right s
           | LogicalExpression operator left right \<Rightarrow>
               visitLogicalExpression H (visit H k) operator left right s
           | AssignmentExpression operator name right \<Rightarrow>
               visitAssignmentExpression H (visit H k) operator name right s
           | FunctionDeclaration name params body \<Rightarrow>
               visitFunctionDeclaration name params body s
           | ReturnStatement argument \<Rightarrow> visitReturnStatement (visit H k) argument s
           | Program body \<Rightarrow> visitProgram (visit H k) body s
           | NumericLiteral v \<Rightarrow> visitLiterals n s
           | StringLiteral v \<Rightarrow> visitLiterals n s
           | Identifier name \<Rightarrow> visitIdentifier name s
           | _ \<Rightarrow> Val VNull s))"

text \<open>
  The constructor: a global environment holding the standard library, which is also the
  current environment. \<^verbatim>\<open>execute\<close> visits the program.
\<close>

definition new_Interpreter :: "'n host \<Rightarrow> 'n interp" where
  "new_Interpreter H =
     (case new_Environment None \<lparr>envs = Map.empty, fresh = 0, environment = 0, globals = 0\<rparr> of
        (g, s) \<Rightarrow>
          (fold (\<lambda>(name, f) s1. env_add g name (VFun f) s1) (stdlib H) s)
            \<lparr>environment := g, globals := g\<rparr>)"

definition execute :: "'n host \<Rightarrow> nat \<Rightarrow> 'n node \<Rightarrow> 'n interp \<Rightarrow> ('n val, 'n) outcome" where
  "execute H k ast s = visit H k (Some ast) s"

section \<open>A host on whole numbers\<close>

text \<open>
  The examples below run on the host \<open>H0\<close>, whose numbers are the integers. On whole
  numbers of small magnitude it computes what the JavaScript host computes: sum,
  difference, product, order, equality, zero as the one falsy number, the number that a
  string of decimal digits, a boolean or \<^verbatim>\<open>null\<close> converts to, and the text that \<^verbatim>\<open>+\<close>
  joins when one operand is a string. Fractions, infinities and \<open>NaN\<close> are outside it
  (a division that is not exact, the number of \<^verbatim>\<open>undefined\<close> or of a text that is not
  decimal), and the examples stay away from them. It has no standard library.
\<close>

definition decimal :: "string \<Rightarrow> int" where
  "decimal s = fold (\<lambda>c n. 10 * n + (of_char c - 48)) s 0"

fun number_of :: "int val \<Rightarrow> int" where
  "number_of (VNum n) = n"
| "number_of (VStr s) = decimal s"
| "number_of (VBool b) = (if b then 1 else 0)"
| "number_of v = 0"

fun text_of :: "int val \<Rightarrow> string" where
  "text_of (VNum n) = (if n < 0 then ''-'' @ show_nat (nat (- n)) else show_nat (nat n))"
| "text_of (VStr s) = s"
| "text_of (VBool b) = (if b then ''true'' else ''false'')"
| "text_of VNull = ''null''"
| "text_of VUndefined = ''undefined''"
| "text_of (VFun f) = ''[object Object]''"

fun is_text :: "int val \<Rightarrow> bool" where
  "is_text (VStr s) = True"
| "is_text (VFun f) = True"
| "is_text v = False"

definition H0 :: "int host" where
  "H0 =
     \<lparr>num_add = (\<lambda>a b. a + b), num_sub = (\<lambda>a b. a - b), num_mul = (\<lambda>a b. a * b),
      num_div = (\<lambda>a b. a div b), num_neg = (\<lambda>a. - a),
      num_lt = (\<lambda>a b. a < b), num_le = (\<lambda>a b. a \<le> b), num_eq = (\<lambda>a b. a = b),
      num_falsy = (\<lambda>a. a = 0),
      ToNumber = number_of,
      ToPrimitive = (\<lambda>f. VStr ''[object Object]''),
      plus_mixed =
        (\<lambda>l r. if is_text l \<or> is_text r then VStr (text_of l @ text_of r)
               else VNum (number_of l + number_of r)),
      stdlib = [],
      native_call = (\<lambda>name args. Inr VUndefined)\<rparr>"

text \<open>A fresh interpreter on this host.\<close>

definition initial :: "int interp" where
  "initial = new_Interpreter H0"

text \<open>The state after \<^verbatim>\<open>def f(x) { }\<close>, for the examples of calls.\<close>

definition with_f :: "int interp" where
  "with_f =
     (case visit H0 1 (Some (FunctionDeclaration ''f'' [''x''] [])) initial of
        Val v s \<Rightarrow> s
      | _ \<Rightarrow> initial)"

text \<open>The state after \<^verbatim>\<open>Banao x = 1;\<close>, for the examples of assignments.\<close>

definition with_x :: "int interp" where
  "with_x =
     (case visit H0 2 (Some (VariableStatement [(''x'', Some (NumericLiteral 1))])) initial of
        Val v s \<Rightarrow> s
      | _ \<Rightarrow> initial)"

text \<open>
  The state inside a block entered after \<^verbatim>\<open>Banao x = 1;\<close>: the current environment is
  the block's, and \<open>x\<close> lives in the enclosing one.
\<close>

definition in_block :: "int interp" where
  "in_block =
     (case new_Environment (Some (environment with_x)) with_x of
        (e, s) \<Rightarrow> s\<lparr>environment := e\<rparr>)"

section \<open>Basic facts\<close>

lemma andThen_simps [simp]:
  "andThen (Val v s) f = f v s"
  "andThen (Exc e s) f = Exc e s"
  "andThen Timeout f = Timeout"
  by (simp_all add: andThen_def)

lemmas run_defs =
  visitExpression_def visitIfStatement_def visitLogicalExpression_def
  visitBinaryExpression_def visitUnaryExpression_def visitLiterals_def
  binary_operation_def checkNumberOperand_def checkNumberOperands_def
  js_loose_eq_def nullish_def bool_to_number_def js_to_number_def decimal_def H0_def

lemmas env_defs =
  initial_def new_Interpreter_def new_Environment_def env_add_def env_get_def env_assign_def
  find_scope.simps visitIdentifier_def

lemma find_scope_after_add:
  assumes upd: "es' b = Some e'" "vars e' name = Some v"
    and same: "\<And>c. c \<noteq> b \<Longrightarrow> es' c = es c"
  shows "find_scope es a name = Some b \<Longrightarrow> find_scope es' a name = Some b"
proof (induct a rule: less_induct)
  case (less a)
  show ?case
  proof (cases "a = b")
    case True
    with upd show ?thesis
      by (subst find_scope.simps) simp
  next
    case False
    with less.prems obtain e0 where e0: "es a = Some e0" and none: "vars e0 name = None"
      by (auto simp: find_scope.simps [of es a] split: option.splits)
    with less.prems False obtain p where p: "parent e0 = Some p" "p < a"
      and found: "find_scope es p name = Some b"
      by (auto simp: find_scope.simps [of es a] split: option.splits if_splits)
    from less.hyps [OF p(2) found] have IH: "find_scope es' p name = Some b" .
    from False e0 same have "es' a = Some e0" by simp
    with none p have "find_scope es' a name = find_scope es' p name"
      by (subst find_scope.simps) simp
    with IH show ?thesis by simp
  qed
qed

lemma find_scope_bound:
  "find_scope es a name = Some b \<Longrightarrow> \<exists>e. es b = Some e \<and> vars e name \<noteq> None"
proof (induct a rule: less_induct)
  case (less a)
  then show ?case
    by (auto simp: find_scope.simps [of es a] split: option.splits if_splits)
qed

lemma env_get_after_assign:
  assumes "env_get s a name = Inr old"
  shows "\<exists>s'. env_assign a name v s = Inr s' \<and> env_get s' a name = Inr v \<and>
           environment s' = environment s"
proof -
  from assms obtain b where b: "find_scope (envs s) a name = Some b"
    by (auto simp: env_get_def split: option.splits)
  from find_scope_bound [OF b] obtain e where e: "envs s b = Some e"
    by blast
  let ?es = "(envs s)(b \<mapsto> e\<lparr>vars := (vars e)(name \<mapsto> v)\<rparr>)"
  have "find_scope ?es a name = Some b"
    by (rule find_scope_after_add [OF _ _ _ b, where e' = "e\<lparr>vars := (vars e)(name \<mapsto> v)\<rparr>" and v = v])
      simp_all
  with b e show ?thesis
    by (simp add: env_assign_def env_add_def env_get_def)
qed
lemma visit_arguments_length:
  "visit_arguments vis arguments s = Val vs s' \<Longrightarrow> length vs = length arguments"
proof (induction arguments arbitrary: s vs)
  case Nil
  then show ?case by simp
next
  case (Cons a arguments)
  then show ?case
    by (auto simp: andThen_def split: outcome.splits)
qed

section \<open>Logical expressions\<close>

text \<open>
  C1, as stated, fails on the code: in \<^verbatim>\<open>(1 == 2) && -"a"\<close> the left operand is \<^verbatim>\<open>false\<close>,
  which decides the result, and still the right operand is evaluated: its error is
  raised. So it is in \<^verbatim>\<open>false && rightSideNeverEvaluated()\<close>: the left operand is falsy
  (the literal takes the default of the switch in \<^verbatim>\<open>visit\<close> and gives \<^verbatim>\<open>null\<close>), and
  the read of the name that is not bound fails.
\<close>

theorem logical_short_circuit_counterexample:
  "visit H0 2 (Some (BinaryExpression ''=='' (NumericLiteral 1) (NumericLiteral 2))) initial =
     Val (VBool False) initial \<and>
   visit H0 3
     (Some (LogicalExpression ''&&''
        (BinaryExpression ''=='' (NumericLiteral 1) (NumericLiteral 2))
        (UnaryExpression ''-'' (StringLiteral ''a''))))
     initial =
   Exc (RuntimeError ''Operand must be number.'' (UnaryExpression ''-'' (StringLiteral ''a'')))
     initial \<and>
   visit H0 1 (Some (BooleanLiteral False)) initial = Val VNull initial \<and>
   visit H0 3
     (Some (LogicalExpression ''&&'' (BooleanLiteral False)
        (CallExpression (Identifier ''rightSideNeverEvaluated'') [])))
     initial =
   Exc (UndefinedVariable ''rightSideNeverEvaluated'') initial"
  by (simp add: run_defs env_defs visitCallExpression_def eval_nat_numeral)

text \<open>
  C1 (amended): for every LogicalExpression, \<^verbatim>\<open>&&\<close> and \<^verbatim>\<open>||\<close> evaluate both operands,
  the left one first and the right one in the state the left one leaves, whatever the
  left value is: an error of the right operand is the error of the expression. When both
  have a value, the result is one of the two values, not a coerced boolean: for \<^verbatim>\<open>&&\<close>
  the right value if the left one is truthy and the left value otherwise, for \<^verbatim>\<open>||\<close>
  the left value if it is truthy and the right value otherwise.
\<close>

theorem logical_evaluates_both_operands:
  assumes "visit H k (Some l) s = Val lv s1"
  shows "visit H (Suc k) (Some (LogicalExpression ''&&'' l r)) s =
           (case visit H k (Some r) s1 of
              Val rv s2 \<Rightarrow> Val (if truthy H lv then rv else lv) s2
            | Exc e s2 \<Rightarrow> Exc e s2
            | Timeout \<Rightarrow> Timeout) \<and>
         visit H (Suc k) (Some (LogicalExpression ''||'' l r)) s =
           (case visit H k (Some r) s1 of
              Val rv s2 \<Rightarrow> Val (if truthy H lv then lv else rv) s2
            | Exc e s2 \<Rightarrow> Exc e s2
            | Timeout \<Rightarrow> Timeout)"
  using assms by (simp add: visitLogicalExpression_def split: outcome.split)

text \<open>The theorem at \<^verbatim>\<open>0 && "a"\<close> and \<^verbatim>\<open>0 || "a"\<close>.\<close>

theorem logical_evaluates_both_operands_witness:
  "visit H0 1 (Some (NumericLiteral 0)) initial = Val (VNum 0) initial \<and>
   visit H0 2 (Some (LogicalExpression ''&&'' (NumericLiteral 0) (StringLiteral ''a''))) initial =
     Val (VNum 0) initial \<and>
   visit H0 2 (Some (LogicalExpression ''||'' (NumericLiteral 0) (StringLiteral ''a''))) initial =
     Val (VStr ''a'') initial"
proof -
  have h: "visit H0 (Suc 0) (Some (NumericLiteral 0)) initial = Val (VNum 0) initial"
    by (simp add: run_defs)
  from logical_evaluates_both_operands [OF h, of "StringLiteral ''a''"] h
  show ?thesis
    by (simp add: run_defs eval_nat_numeral)
qed

section \<open>Conditionals\<close>

text \<open>
  C2, as stated, fails on the code: with the test \<^verbatim>\<open>0\<close>, and with the test \<^verbatim>\<open>""\<close>, the
  alternate is executed (its error is raised), not the consequent.
\<close>

theorem if_zero_and_empty_string_counterexample:
  "visit H0 4
     (Some (IfStatement (NumericLiteral 0)
        (ExpressionStatement (NumericLiteral 1))
        (Some (ExpressionStatement (UnaryExpression ''-'' (StringLiteral ''a''))))))
     initial =
   Exc (RuntimeError ''Operand must be number.'' (UnaryExpression ''-'' (StringLiteral ''a'')))
     initial \<and>
   visit H0 4
     (Some (IfStatement (StringLiteral [])
        (ExpressionStatement (NumericLiteral 1))
        (Some (ExpressionStatement (UnaryExpression ''-'' (StringLiteral ''a''))))))
     initial =
   Exc (RuntimeError ''Operand must be number.'' (UnaryExpression ''-'' (StringLiteral ''a'')))
     initial"
  by (simp add: run_defs eval_nat_numeral)

text \<open>
  C2 (amended): for every IfStatement, the test value is treated as falsy if and only if
  it is falsy for the host: \<^verbatim>\<open>false\<close>, \<^verbatim>\<open>null\<close>, \<^verbatim>\<open>undefined\<close>, the empty string, or a
  number the host counts as falsy (zero and \<open>NaN\<close>). On a falsy test the alternate is
  executed if there is one, and nothing otherwise; on any other test the consequent is
  executed. The statement itself evaluates to \<^verbatim>\<open>null\<close>.
\<close>

theorem if_follows_host_truthiness:
  assumes "visit H k (Some test) s = Val t s1"
  shows "visit H (Suc k) (Some (IfStatement test consequent alternate)) s =
           (if t = VBool False \<or> t = VNull \<or> t = VUndefined \<or> t = VStr [] \<or>
               (\<exists>n. t = VNum n \<and> num_falsy H n)
            then
              (case alternate of
                 Some a \<Rightarrow> andThen (visit H k (Some a) s1) (\<lambda>v s2. Val VNull s2)
               | None \<Rightarrow> Val VNull s1)
            else andThen (visit H k (Some consequent) s1) (\<lambda>v s2. Val VNull s2))"
  using assms by (cases t) (auto simp: visitIfStatement_def)

text \<open>The theorem at \<^verbatim>\<open>if (0) 1; else 2;\<close>, which executes the alternate.\<close>

theorem if_follows_host_truthiness_witness:
  "visit H0 1 (Some (NumericLiteral 0)) initial = Val (VNum 0) initial \<and>
   visit H0 2
     (Some (IfStatement (NumericLiteral 0) (NumericLiteral 1) (Some (NumericLiteral 2))))
     initial =
   Val VNull initial"
proof -
  have h: "visit H0 (Suc 0) (Some (NumericLiteral 0)) initial = Val (VNum 0) initial"
    by (simp add: run_defs)
  from if_follows_host_truthiness [OF h, of "NumericLiteral 1" "Some (NumericLiteral 2)"] h
  show ?thesis
    by (simp add: run_defs eval_nat_numeral)
qed

section \<open>Equality\<close>

text \<open>
  C3, as stated, fails on the code: the number \<^verbatim>\<open>1\<close> and the string \<^verbatim>\<open>"1"\<close> are equal
  under \<^verbatim>\<open>==\<close>.
\<close>

theorem equality_number_string_counterexample:
  "visit H0 2 (Some (BinaryExpression ''=='' (NumericLiteral 1) (StringLiteral ''1''))) initial =
     Val (VBool True) initial"
  by (simp add: run_defs eval_nat_numeral)

text \<open>
  C3 (amended): for every BinaryExpression with operator \<^verbatim>\<open>==\<close> or \<^verbatim>\<open>!=\<close> whose operands
  have values, the result is the host's loose equality of the two values, respectively
  its negation. Two strings and two booleans are equal exactly when they are the same
  value, and two numbers when the host's equality of numbers holds; a number and a string
  are compared after the string is converted to a number.
\<close>

theorem equality_is_loose:
  assumes "visit H k (Some l) s = Val lv s1"
    and "visit H k (Some r) s1 = Val rv s2"
  shows "visit H (Suc k) (Some (BinaryExpression ''=='' l r)) s =
           Val (VBool (js_loose_eq H lv rv)) s2 \<and>
         visit H (Suc k) (Some (BinaryExpression ''!='' l r)) s =
           Val (VBool (\<not> js_loose_eq H lv rv)) s2 \<and>
         js_loose_eq H (VStr a) (VStr b) = (a = b) \<and>
         js_loose_eq H (VBool p) (VBool q) = (p = q) \<and>
         js_loose_eq H (VNum m) (VNum n) = num_eq H m n \<and>
         js_loose_eq H (VNum m) (VStr b) = num_eq H m (ToNumber H (VStr b)) \<and>
         js_loose_eq H (VStr a) (VNum n) = num_eq H (ToNumber H (VStr a)) n"
  using assms
  by (simp add: visitBinaryExpression_def binary_operation_def js_loose_eq_def js_to_number_def)

text \<open>The theorem at \<^verbatim>\<open>1 == "1"\<close> and \<^verbatim>\<open>1 != "1"\<close>.\<close>

theorem equality_is_loose_witness:
  "visit H0 1 (Some (NumericLiteral 1)) initial = Val (VNum 1) initial \<and>
   visit H0 1 (Some (StringLiteral ''1'')) initial = Val (VStr ''1'') initial \<and>
   visit H0 2 (Some (BinaryExpression ''=='' (NumericLiteral 1) (StringLiteral ''1''))) initial =
     Val (VBool True) initial \<and>
   visit H0 2 (Some (BinaryExpression ''!='' (NumericLiteral 1) (StringLiteral ''1''))) initial =
     Val (VBool False) initial"
proof -
  have l: "visit H0 (Suc 0) (Some (NumericLiteral 1)) initial = Val (VNum 1) initial"
    by (simp add: run_defs)
  have r: "visit H0 (Suc 0) (Some (StringLiteral ''1'')) initial = Val (VStr ''1'') initial"
    by (simp add: run_defs)
  from equality_is_loose [OF l r] l r
  show ?thesis
    by (simp add: run_defs eval_nat_numeral)
qed

section \<open>Variable declarations\<close>

text \<open>
  C4 fails on the code: the loop of \<^verbatim>\<open>visitVariableStatement\<close> returns at the end of its
  first round. After \<^verbatim>\<open>Banao a = 1, b = 2;\<close> the name \<^verbatim>\<open>a\<close> is bound to \<^verbatim>\<open>1\<close> and the
  name \<^verbatim>\<open>b\<close> is not bound.
\<close>

theorem variable_statement_first_declaration_only:
  "(case visit H0 2
      (Some (VariableStatement
         [(''a'', Some (NumericLiteral 1)), (''b'', Some (NumericLiteral 2))]))
      initial of
      Val v s \<Rightarrow>
        v = VNull \<and> env_get s (environment s) ''a'' = Inr (VNum 1) \<and>
        env_get s (environment s) ''b'' = Inl (UndefinedVariable ''b'')
    | Exc e s \<Rightarrow> False
    | Timeout \<Rightarrow> False)"
  by (simp add: run_defs env_defs visitVariableStatement_def eval_nat_numeral)

section \<open>For loops\<close>

text \<open>
  C5 fails on the code: when the test is absent and the initialisation is present, the
  loop is stopped by the test at once. In \<^verbatim>\<open>for (Banao i = 0; ; ) -"a";\<close> the statement
  ends normally with \<^verbatim>\<open>null\<close>, and the body, which would raise an error, is never
  evaluated. With all three clauses absent the same body is evaluated.
\<close>

theorem for_absent_test_stops_loop:
  "(case visit H0 3
      (Some (ForStatement (Some (VariableStatement [(''i'', Some (NumericLiteral 0))])) None None
         (ExpressionStatement (UnaryExpression ''-'' (StringLiteral ''a'')))))
      initial of
      Val v s \<Rightarrow> v = VNull
    | Exc e s \<Rightarrow> False
    | Timeout \<Rightarrow> False) \<and>
   visit H0 4
     (Some (ForStatement None None None
        (ExpressionStatement (UnaryExpression ''-'' (StringLiteral ''a'')))))
     initial =
   Exc (RuntimeError ''Operand must be number.'' (UnaryExpression ''-'' (StringLiteral ''a'')))
     initial"
  by (simp add: run_defs env_defs visitVariableStatement_def visitForStatement_def
      eval_nat_numeral)

section \<open>Calls\<close>

text \<open>The guard of \<^verbatim>\<open>visitCallExpression\<close> tests a boolean, which is no instance.\<close>

lemma call_guard_never_holds:
  "instanceof_CallableFunction (VBool b) = False"
  by (simp add: instanceof_CallableFunction_def)

text \<open>
  C6 fails on the code: the guard of \<^verbatim>\<open>visitCallExpression\<close> applies \<^verbatim>\<open>instanceof\<close> to a
  boolean, so it never holds. A call of the number \<^verbatim>\<open>5\<close>, or of the string \<^verbatim>\<open>"f"\<close>, is
  not refused with the RuntimeError \<^verbatim>\<open>Can only call functions and classes\<close>: the method
  goes on and the host fails with a \<^verbatim>\<open>TypeError\<close> when \<^verbatim>\<open>callee.arity()\<close> is called.
\<close>

theorem call_of_non_callable_no_runtime_error:
  "visit H0 2 (Some (CallExpression (NumericLiteral 5) [])) initial =
     Exc (TypeError ''callee.arity is not a function'') initial \<and>
   visit H0 2 (Some (CallExpression (StringLiteral ''f'') [])) initial =
     Exc (TypeError ''callee.arity is not a function'') initial"
  by (simp add: run_defs visitCallExpression_def read_prototype_def
      instanceof_CallableFunction_def eval_nat_numeral)

text \<open>
  C7: for every CallExpression whose callee evaluates to a callable and whose arguments
  have values: when the callable declares a finite arity, the call fails with the
  RuntimeError \<^verbatim>\<open>Expected n arguments but got m.\<close> exactly when the number of arguments
  differs from the arity, and otherwise goes on to invoke the callable; when the arity is
  unbounded, the check is bypassed and the callable is invoked.
\<close>

theorem call_checks_arity:
  assumes "visit H k (Some callee) s = Val (VFun c) s1"
    and "visit_arguments (visit H k) arguments s1 = Val args s2"
  shows "visit H (Suc k) (Some (CallExpression callee arguments)) s =
           (case arity_of c of
              Finite n \<Rightarrow>
                if length arguments \<noteq> n then
                  Exc (RuntimeError
                    (''Expected '' @ show_nat n @ '' arguments but got '' @
                       show_nat (length arguments) @ ''.'')
                    (CallExpression callee arguments)) s2
                else call_function H (visit H k) c args s2
            | Infinity \<Rightarrow> call_function H (visit H k) c args s2)"
  using assms visit_arguments_length [OF assms(2)]
  by (auto simp: visitCallExpression_def read_prototype_def nullish_def
      instanceof_CallableFunction_def split: arity.splits)

text \<open>
  The theorem at \<^verbatim>\<open>f()\<close> and \<^verbatim>\<open>f(1, 2)\<close> after \<^verbatim>\<open>def f(x) { }\<close>: both fail, with the
  counts in the message.
\<close>

theorem call_checks_arity_witness:
  "visit H0 1 (Some (Identifier ''f'')) with_f =
     Val (VFun (ToyLangFunction 1 (FunctionDeclaration ''f'' [''x''] []) 0)) with_f \<and>
   visit_arguments (visit H0 1) [] with_f = Val [] with_f \<and>
   visit_arguments (visit H0 1) [NumericLiteral 1, NumericLiteral 2] with_f =
     Val [VNum 1, VNum 2] with_f \<and>
   visit H0 2 (Some (CallExpression (Identifier ''f'') [])) with_f =
     Exc (RuntimeError ''Expected 1 arguments but got 0.'' (CallExpression (Identifier ''f'') []))
       with_f \<and>
   visit H0 2 (Some (CallExpression (Identifier ''f'') [NumericLiteral 1, NumericLiteral 2]))
     with_f =
     Exc (RuntimeError ''Expected 1 arguments but got 2.''
       (CallExpression (Identifier ''f'') [NumericLiteral 1, NumericLiteral 2])) with_f"
proof -
  let ?f = "VFun (ToyLangFunction 1 (FunctionDeclaration ''f'' [''x''] []) 0) :: int val"
  have c: "visit H0 (Suc 0) (Some (Identifier ''f'')) with_f = Val ?f with_f"
    by (simp add: with_f_def env_defs H0_def visitFunctionDeclaration_def)
  have a0: "visit_arguments (visit H0 (Suc 0)) [] with_f = Val [] with_f"
    by simp
  have a2: "visit_arguments (visit H0 (Suc 0)) [NumericLiteral 1, NumericLiteral 2] with_f =
      Val [VNum 1, VNum 2] with_f"
    by (simp add: run_defs)
  from call_checks_arity [OF c a0] call_checks_arity [OF c a2] c a0 a2
  show ?thesis
    by (simp add: arity_of_def show_nat.simps eval_nat_numeral)
qed

section \<open>Binary operators\<close>

text \<open>
  C8: for every BinaryExpression whose operands have values, \<^verbatim>\<open>+\<close> returns the host's
  sum when both are numbers and the concatenation when both are strings, and fails with
  the RuntimeError \<^verbatim>\<open>Runtime: Mismatched type ...\<close> for any other pair; each of \<^verbatim>\<open>-\<close>,
  \<^verbatim>\<open>*\<close>, \<^verbatim>\<open>/\<close>, \<^verbatim>\<open>>\<close>, \<^verbatim>\<open><\<close>, \<^verbatim>\<open>>=\<close>, \<^verbatim>\<open><=\<close> returns the host's result when both are
  numbers and otherwise fails with the RuntimeError \<^verbatim>\<open>Operands must be numbers.\<close>
\<close>

theorem binary_operators_check_types:
  assumes "visit H k (Some l) s = Val lv s1"
    and "visit H k (Some r) s1 = Val rv s2"
  shows "visit H (Suc k) (Some (BinaryExpression ''+'' l r)) s =
           (case (lv, rv) of
              (VNum a, VNum b) \<Rightarrow> Val (VNum (num_add H a b)) s2
            | (VStr a, VStr b) \<Rightarrow> Val (VStr (a @ b)) s2
            | _ \<Rightarrow> Exc (RuntimeError (mismatched_type lv rv) (BinaryExpression ''+'' l r)) s2) \<and>
         visit H (Suc k) (Some (BinaryExpression ''-'' l r)) s =
           (case (lv, rv) of
              (VNum a, VNum b) \<Rightarrow> Val (VNum (num_sub H a b)) s2
            | _ \<Rightarrow> Exc (RuntimeError ''Operands must be numbers.'' (BinaryExpression ''-'' l r)) s2) \<and>
         visit H (Suc k) (Some (BinaryExpression ''*'' l r)) s =
           (case (lv, rv) of
              (VNum a, VNum b) \<Rightarrow> Val (VNum (num_mul H a b)) s2
            | _ \<Rightarrow> Exc (RuntimeError ''Operands must be numbers.'' (BinaryExpression ''*'' l r)) s2) \<and>
         visit H (Suc k) (Some (BinaryExpression ''/'' l r)) s =
           (case (lv, rv) of
              (VNum a, VNum b) \<Rightarrow> Val (VNum (num_div H a b)) s2
            | _ \<Rightarrow> Exc (RuntimeError ''Operands must be numbers.'' (BinaryExpression ''/'' l r)) s2) \<and>
         visit H (Suc k) (Some (BinaryExpression ''>'' l r)) s =
           (case (lv, rv) of
              (VNum a, VNum b) \<Rightarrow> Val (VBool (num_lt H b a)) s2
            | _ \<Rightarrow> Exc (RuntimeError ''Operands must be numbers.'' (BinaryExpression ''>'' l r)) s2) \<and>
         visit H (Suc k) (Some (BinaryExpression ''<'' l r)) s =
           (case (lv, rv) of
              (VNum a, VNum b) \<Rightarrow> Val (VBool (num_lt H a b)) s2
            | _ \<Rightarrow> Exc (RuntimeError ''Operands must be numbers.'' (BinaryExpression ''<'' l r)) s2) \<and>
         visit H (Suc k) (Some (BinaryExpression ''>='' l r)) s =
           (case (lv, rv) of
              (VNum a, VNum b) \<Rightarrow> Val (VBool (num_le H b a)) s2
            | _ \<Rightarrow> Exc (RuntimeError ''Operands must be numbers.'' (BinaryExpression ''>='' l r)) s2) \<and>
         visit H (Suc k) (Some (BinaryExpression ''<='' l r)) s =
           (case (lv, rv) of
              (VNum a, VNum b) \<Rightarrow> Val (VBool (num_le H a b)) s2
            | _ \<Rightarrow> Exc (RuntimeError ''Operands must be numbers.'' (BinaryExpression ''<='' l r)) s2)"
proof -
  have "visit H (Suc k) (Some (BinaryExpression op l r)) s =
      (case binary_operation H (BinaryExpression op l r) op lv rv of
         Inl e \<Rightarrow> Exc e s2
       | Inr v \<Rightarrow> Val v s2)" for op
    using assms by (simp add: visitBinaryExpression_def)
  then show ?thesis
    by (cases lv; cases rv) (simp_all add: binary_operation_def checkNumberOperands_def)
qed

text \<open>
  The theorem at \<^verbatim>\<open>"a" + "b"\<close>, which is \<^verbatim>\<open>"ab"\<close>, and at \<^verbatim>\<open>1 + "a"\<close> and \<^verbatim>\<open>1 - "a"\<close>,
  which fail.
\<close>

theorem binary_operators_check_types_witness:
  "visit H0 1 (Some (StringLiteral ''a'')) initial = Val (VStr ''a'') initial \<and>
   visit H0 1 (Some (StringLiteral ''b'')) initial = Val (VStr ''b'') initial \<and>
   visit H0 1 (Some (NumericLiteral 1)) initial = Val (VNum 1) initial \<and>
   visit H0 2 (Some (BinaryExpression ''+'' (StringLiteral ''a'') (StringLiteral ''b''))) initial =
     Val (VStr ''ab'') initial \<and>
   visit H0 2 (Some (BinaryExpression ''+'' (NumericLiteral 1) (StringLiteral ''a''))) initial =
     Exc (RuntimeError
       (''Runtime: Mismatched type, cannot '' @ [CHR 0x22] @ ''number'' @ [CHR 0x22] @ '' + '' @
          [CHR 0x22] @ ''string'' @ [CHR 0x22])
       (BinaryExpression ''+'' (NumericLiteral 1) (StringLiteral ''a''))) initial \<and>
   visit H0 2 (Some (BinaryExpression ''-'' (NumericLiteral 1) (StringLiteral ''a''))) initial =
     Exc (RuntimeError ''Operands must be numbers.''
       (BinaryExpression ''-'' (NumericLiteral 1) (StringLiteral ''a''))) initial"
proof -
  have a: "visit H0 (Suc 0) (Some (StringLiteral ''a'')) initial = Val (VStr ''a'') initial"
    by (simp add: run_defs)
  have b: "visit H0 (Suc 0) (Some (StringLiteral ''b'')) initial = Val (VStr ''b'') initial"
    by (simp add: run_defs)
  have n: "visit H0 (Suc 0) (Some (NumericLiteral 1)) initial = Val (VNum 1) initial"
    by (simp add: run_defs)
  from binary_operators_check_types [OF a b] binary_operators_check_types [OF n a] a b n
  show ?thesis
    by (simp add: mismatched_type_def eval_nat_numeral)
qed

section \<open>Token offsets\<close>

text \<open>
  Whatever the rule and the text, the offsets of a token are the length of its text and
  one more apart, and the end is the cursor after the token.
\<close>

lemma try_rules_offsets:
  "try_rules rules s t = Produced tok t' \<Longrightarrow>
     tok_end tok - tok_start tok = int (length (tok_value tok)) + 1 \<and>
     tok_end tok = int (cursor t')"
proof (induction rules)
  case Nil
  then show ?case by simp
next
  case (Cons r rules)
  obtain regex ty where r: "r = (regex, ty)" by (cases r)
  show ?case
  proof (cases "regex s")
    case None
    with Cons r show ?thesis by (auto simp: match_regex_def)
  next
    case (Some m)
    with Cons.prems r show ?thesis
      by (cases ty) (auto simp: match_regex_def)
  qed
qed

lemma getNextToken_offsets:
  "getNextToken t = (Inr (Some tok), t') \<Longrightarrow>
     tok_end tok - tok_start tok = int (length (tok_value tok)) + 1"
proof (induction t rule: getNextToken.induct)
  case (1 t)
  show ?case
  proof (cases "try_rules spec (drop (cursor t) (tk_string t)) t")
    case NoRule
    with "1.prems" show ?thesis
      by (simp add: getNextToken.simps [of t] split: if_splits)
  next
    case (Skipped t1)
    with "1.prems" have "\<not> (\<not> hasMoreTokens t \<or> isEOF t)" and "getNextToken t1 = (Inr (Some tok), t')"
      by (auto simp: getNextToken.simps [of t] split: if_splits)
    with "1.IH" Skipped show ?thesis by blast
  next
    case (Produced tok1 t1)
    with "1.prems" have "tok1 = tok"
      by (simp add: getNextToken.simps [of t] split: if_splits)
    with Produced try_rules_offsets show ?thesis by blast
  qed
qed

text \<open>
  C9 fails on the code: \<^verbatim>\<open>start\<close> is computed as \<^verbatim>\<open>this.cursor - tokenValue.length - 1\<close>
  after the cursor has moved past the token, which is one less than the offset of the
  token's first character. The only token of the source \<^verbatim>\<open>x\<close> has the text \<^verbatim>\<open>x\<close> of
  length 1, the end offset 1 and the start offset -1: the offsets are two apart, and the
  start is not an offset of the source.
\<close>

theorem token_start_off_by_one:
  "getNextToken (init ''x'') =
     (Inr (Some \<lparr>tok_type = IDENTIFIER, tok_value = ''x'', tok_start = - 1, tok_end = 1\<rparr>),
      \<lparr>tk_string = ''x'' @ [CHR 0x0A], cursor = 1\<rparr>)"
  by (simp add: getNextToken.simps init_def hasMoreTokens_def isEOF_def spec_def
      match_regex_def re_many1_def re_lit_def re_keyword_def re_line_comment_def
      re_block_comment_def is_space_def is_word_def is_digit_def)

section \<open>Assignments\<close>

text \<open>
  C10: for every assignment to a name \<open>x\<close> that is bound when the right side has been
  evaluated, the binding of \<open>x\<close> is in the first scope of the chain, from the current
  environment outward, that has the name, and its value there is the value \<open>old\<close> that
  \<open>x\<close> holds. \<^verbatim>\<open>x = e\<close> stores the value of \<open>e\<close> into this existing binding (the state
  after it is the state before with this one binding replaced and nothing added to any
  other scope) and evaluates to \<open>old\<close>, not to the new value; \<^verbatim>\<open>x += e\<close> stores the
  host's sum of \<open>old\<close> and the value of \<open>e\<close> into the same binding and evaluates to this
  updated value; and \<^verbatim>\<open>-=\<close>, \<^verbatim>\<open>*=\<close>, \<^verbatim>\<open>/=\<close> with a number on the right store the host's
  result there and evaluate to it.
\<close>

theorem assignment_returns_old_value:
  assumes "visit H k (Some e) s = Val v s1"
    and "env_get s1 (environment s1) x = Inr old"
  shows "\<exists>b sc.
           find_scope (envs s1) (environment s1) x = Some b \<and>
           envs s1 b = Some sc \<and> vars sc x = Some old \<and>
           (\<forall>w. env_assign (environment s1) x w s1 = Inr (env_add b x w s1) \<and>
                env_add b x w s1 =
                  s1\<lparr>envs := (envs s1)(b \<mapsto> sc\<lparr>vars := (vars sc)(x \<mapsto> w)\<rparr>)\<rparr> \<and>
                env_get (env_add b x w s1) (environment (env_add b x w s1)) x = Inr w) \<and>
           visit H (Suc k) (Some (AssignmentExpression ''='' x e)) s =
             Val old (env_add b x v s1) \<and>
           visit H (Suc k) (Some (AssignmentExpression ''+='' x e)) s =
             Val (js_plus H old v) (env_add b x (js_plus H old v) s1) \<and>
           (\<forall>n. v = VNum n \<longrightarrow>
              visit H (Suc k) (Some (AssignmentExpression ''-='' x e)) s =
                Val (VNum (num_sub H (js_to_number H old) n))
                  (env_add b x (VNum (num_sub H (js_to_number H old) n)) s1) \<and>
              visit H (Suc k) (Some (AssignmentExpression ''*='' x e)) s =
                Val (VNum (num_mul H (js_to_number H old) n))
                  (env_add b x (VNum (num_mul H (js_to_number H old) n)) s1) \<and>
              visit H (Suc k) (Some (AssignmentExpression ''/='' x e)) s =
                Val (VNum (num_div H (js_to_number H old) n))
                  (env_add b x (VNum (num_div H (js_to_number H old) n)) s1))"
proof -
  from assms(2) obtain b sc where b: "find_scope (envs s1) (environment s1) x = Some b"
    and sc: "envs s1 b = Some sc" and old: "vars sc x = Some old"
    by (auto simp: env_get_def split: option.splits)
  have assign: "env_assign (environment s1) x w s1 = Inr (env_add b x w s1)" for w
    using b by (simp add: env_assign_def)
  have add: "env_add b x w s1 =
      s1\<lparr>envs := (envs s1)(b \<mapsto> sc\<lparr>vars := (vars sc)(x \<mapsto> w)\<rparr>)\<rparr>" for w
    using sc by (simp add: env_add_def)
  have get: "env_get (env_add b x w s1) (environment (env_add b x w s1)) x = Inr w" for w
    using env_get_after_assign [OF assms(2), of w] assign [of w] by auto
  have ret: "assign_and_return x w res s1 = Val res (env_add b x w s1)" for w res
    using assign [of w] by (simp add: assign_and_return_def)
  have run: "visit H (Suc k) (Some (AssignmentExpression ''='' x e)) s =
        Val old (env_add b x v s1) \<and>
      visit H (Suc k) (Some (AssignmentExpression ''+='' x e)) s =
        Val (js_plus H old v) (env_add b x (js_plus H old v) s1) \<and>
      (\<forall>n. v = VNum n \<longrightarrow>
         visit H (Suc k) (Some (AssignmentExpression ''-='' x e)) s =
           Val (VNum (num_sub H (js_to_number H old) n))
             (env_add b x (VNum (num_sub H (js_to_number H old) n)) s1) \<and>
         visit H (Suc k) (Some (AssignmentExpression ''*='' x e)) s =
           Val (VNum (num_mul H (js_to_number H old) n))
             (env_add b x (VNum (num_mul H (js_to_number H old) n)) s1) \<and>
         visit H (Suc k) (Some (AssignmentExpression ''/='' x e)) s =
           Val (VNum (num_div H (js_to_number H old) n))
             (env_add b x (VNum (num_div H (js_to_number H old) n)) s1))"
    using assms ret by (simp add: visitAssignmentExpression_def)
  from b sc old assign add get run show ?thesis by blast
qed

text \<open>
  The theorem at \<^verbatim>\<open>x = 2\<close> and \<^verbatim>\<open>x += 2\<close> inside a block after \<^verbatim>\<open>Banao x = 1;\<close>: the
  binding of \<open>x\<close> is in the enclosing scope 0 and not in the block's scope 1. The first
  evaluates to \<^verbatim>\<open>1\<close> and leaves \<^verbatim>\<open>2\<close> in the enclosing scope, the second evaluates to
  \<^verbatim>\<open>3\<close> and leaves \<^verbatim>\<open>3\<close> there, and neither adds \<open>x\<close> to the block's scope. The whole
  program \<^verbatim>\<open>Banao x = 1; { x = 2; }\<close> ends with \<^verbatim>\<open>2\<close> in \<open>x\<close>.
\<close>

theorem assignment_returns_old_value_witness:
  "visit H0 1 (Some (NumericLiteral 2)) in_block = Val (VNum 2) in_block \<and>
   env_get in_block (environment in_block) ''x'' = Inr (VNum 1) \<and>
   environment in_block = 1 \<and>
   find_scope (envs in_block) (environment in_block) ''x'' = Some 0 \<and>
   (case visit H0 2 (Some (AssignmentExpression ''='' ''x'' (NumericLiteral 2))) in_block of
      Val res s \<Rightarrow>
        res = VNum 1 \<and> s = env_add 0 ''x'' (VNum 2) in_block \<and>
        env_get s 0 ''x'' = Inr (VNum 2) \<and>
        (case envs s 1 of Some sc \<Rightarrow> vars sc ''x'' = None | None \<Rightarrow> False)
    | Exc e s \<Rightarrow> False
    | Timeout \<Rightarrow> False) \<and>
   (case visit H0 2 (Some (AssignmentExpression ''+='' ''x'' (NumericLiteral 2))) in_block of
      Val res s \<Rightarrow>
        res = VNum 3 \<and> s = env_add 0 ''x'' (VNum 3) in_block \<and>
        env_get s 0 ''x'' = Inr (VNum 3) \<and>
        (case envs s 1 of Some sc \<Rightarrow> vars sc ''x'' = None | None \<Rightarrow> False)
    | Exc e s \<Rightarrow> False
    | Timeout \<Rightarrow> False) \<and>
   (case visit H0 5
      (Some (Program
         [VariableStatement [(''x'', Some (NumericLiteral 1))],
          BlockStatement [ExpressionStatement (AssignmentExpression ''='' ''x'' (NumericLiteral 2))]]))
      initial of
      Val res s \<Rightarrow> env_get s (environment s) ''x'' = Inr (VNum 2)
    | Exc e s \<Rightarrow> False
    | Timeout \<Rightarrow> False)"
proof -
  have e: "visit H0 (Suc 0) (Some (NumericLiteral 2)) in_block = Val (VNum 2) in_block"
    by (simp add: run_defs)
  have env: "environment in_block = 1"
    and b: "find_scope (envs in_block) (environment in_block) ''x'' = Some 0"
    and x: "env_get in_block (environment in_block) ''x'' = Inr (VNum 1)"
    by (simp_all add: in_block_def with_x_def run_defs env_defs visitVariableStatement_def
        eval_nat_numeral)
  have block: "envs (env_add 0 ''x'' w in_block) 1 =
      Some \<lparr>vars = Map.empty, parent = Some 0\<rparr>" for w
    by (simp add: in_block_def with_x_def run_defs env_defs visitVariableStatement_def
        eval_nat_numeral)
  have prog: "(case visit H0 5
      (Some (Program
         [VariableStatement [(''x'', Some (NumericLiteral 1))],
          BlockStatement [ExpressionStatement (AssignmentExpression ''='' ''x'' (NumericLiteral 2))]]))
      initial of
      Val res s \<Rightarrow> env_get s (environment s) ''x'' = Inr (VNum 2)
    | Exc e s \<Rightarrow> False
    | Timeout \<Rightarrow> False)"
    by (simp add: run_defs env_defs visitVariableStatement_def visitProgram_def
        visitBlockStatement_def executeBlock_def visitAssignmentExpression_def
        assign_and_return_def eval_nat_numeral)
  from assignment_returns_old_value [OF e x] b
  have "visit H0 (Suc (Suc 0)) (Some (AssignmentExpression ''='' ''x'' (NumericLiteral 2))) in_block =
      Val (VNum 1) (env_add 0 ''x'' (VNum 2) in_block) \<and>
    visit H0 (Suc (Suc 0)) (Some (AssignmentExpression ''+='' ''x'' (NumericLiteral 2))) in_block =
      Val (js_plus H0 (VNum 1) (VNum 2)) (env_add 0 ''x'' (js_plus H0 (VNum 1) (VNum 2)) in_block) \<and>
    (\<forall>w. env_get (env_add 0 ''x'' w in_block) (environment (env_add 0 ''x'' w in_block)) ''x'' = Inr w)"
    by auto
  moreover have "env_get (env_add 0 ''x'' w in_block) 0 ''x'' = Inr w" for w
    by (simp add: in_block_def with_x_def run_defs env_defs visitVariableStatement_def
        eval_nat_numeral)
  ultimately show ?thesis
    using e x env b block prog
    by (simp add: js_plus_def H0_def eval_nat_numeral)
qed

end
